theory Spec2Isabelle
  imports Complex_Main
begin

section \<open>Strategy engine of shorttrack-analytics (lib/strategy.ts)\<close>

text \<open>
  The engine is a set of pure TypeScript functions over plain objects. A JavaScript
  \<^verbatim>\<open>number\<close> is modelled as a \<^typ>\<open>real\<close>: the arithmetic of the source is read
  as exact arithmetic, so IEEE rounding, NaN and the infinities are outside the model.
  An interface is a record, a string union is a datatype, an optional or guarded field
  is an \<open>option\<close>, an array is a list, and a \<^verbatim>\<open>for\<close> loop that pushes to an array is
  a recursive function with the array as accumulator.
\<close>

subsection \<open>Numbers\<close>

text \<open>\<^verbatim>\<open>Math.round\<close> rounds to the nearest integer, a tie going up.\<close>

definition Math_round :: "real \<Rightarrow> real" where
  "Math_round x = of_int \<lfloor>x + 1 / 2\<rfloor>"

text \<open>\<^verbatim>\<open>x ?? d\<close> and, on a field that is absent or a number, \<^verbatim>\<open>x || d\<close>.\<close>

definition nullish :: "'a option \<Rightarrow> 'a \<Rightarrow> 'a" where
  "nullish x d = (case x of None \<Rightarrow> d | Some v \<Rightarrow> v)"

definition or_else :: "real option \<Rightarrow> real \<Rightarrow> real" where
  "or_else x d = (case x of None \<Rightarrow> d | Some v \<Rightarrow> if v = 0 then d else v)"

text \<open>\<^verbatim>\<open>x || d\<close> on a number that is present: zero is falsy.\<close>

definition falsy_or :: "real \<Rightarrow> real \<Rightarrow> real" where
  "falsy_or x d = (if x = 0 then d else x)"

subsection \<open>Data (types/data.ts and the interfaces of strategy.ts)\<close>

datatype Style = late_mover | front_runner | mid_surge | balanced | no_passes
  | developing | sprint | unknown

datatype ThreatLevel = high | medium | low

datatype Phase = Early | Mid | Late

datatype ActionClass = hold | push | overtake | conserve

record Pace =
  early :: real
  middle :: real
  late :: real

record Medal =
  gold :: real
  silver :: real
  bronze :: real
  total :: real

text \<open>
  \<^verbatim>\<open>SkaterStats\<close>. The fields that strategy.ts reads only behind a guard
  (\<^verbatim>\<open>??\<close>, \<^verbatim>\<open>||\<close>, \<^verbatim>\<open>?:\<close>) are optional here; the others are as declared.
\<close>

record SkaterStats =
  total_races :: real
  competitions_entered :: real
  medals :: "Medal option"
  finals_appearances :: real
  total_passes_made :: real
  total_times_passed :: real
  net_passes :: real
  avg_passes_per_race :: real
  passes_early :: real
  passes_middle :: real
  passes_late :: real
  style :: "Style option"
  threat_score :: "real option"
  avg_place :: "real option"
  podium_rate :: "real option"
  win_rate :: "real option"
  penalties :: "real option"
  dnf :: real
  dns :: real
  penalty_rate :: "real option"
  clean_race_pct :: real
  crashes_inferred :: "real option"
  crash_rate :: "real option"

text \<open>
  \<^verbatim>\<open>Skater\<close>: identity and statistics. The biography, seasons, distances, events and
  the generated \<^verbatim>\<open>id\<close> string are carried by no function below and are left out.
\<close>

record Skater =
  name :: string
  nationality :: string
  flag :: string
  gender :: string
  category :: string
  source :: string
  stats :: SkaterStats

record OpponentThreat =
  name :: string
  flag :: string
  nationality :: string
  style :: "Style option"
  threat_score :: real
  threatLevel :: ThreatLevel
  net_passes :: real
  avg_passes_per_race :: real
  total_races :: real
  medals_total :: real
  penalties :: real
  crash_count :: real
  penalty_rate :: real
  crash_rate :: real
  lane :: "real option"

subsection \<open>Threat evaluator\<close>

definition computeThreatLevel :: "real \<Rightarrow> ThreatLevel" where
  "computeThreatLevel threatScore =
     (if threatScore \<ge> 60 then high
      else if threatScore \<ge> 30 then medium
      else low)"

definition buildOpponentThreat :: "Skater \<Rightarrow> real option \<Rightarrow> OpponentThreat" where
  "buildOpponentThreat skater lane_arg =
     (let st = stats skater;
          totalMedals = (case SkaterStats.medals st of
                           None \<Rightarrow> 0
                         | Some m \<Rightarrow> falsy_or (gold m) 0 + falsy_or (silver m) 0
                                     + falsy_or (bronze m) 0);
          threatScore = or_else (SkaterStats.threat_score st) 0;
          penalties_v = nullish (SkaterStats.penalties st) 0;
          crashCount = nullish (SkaterStats.crashes_inferred st) 0;
          penaltyRate = nullish (SkaterStats.penalty_rate st) 0;
          crashRate = nullish (SkaterStats.crash_rate st) 0
      in \<lparr> OpponentThreat.name = Skater.name skater,
           OpponentThreat.flag = Skater.flag skater,
           OpponentThreat.nationality = Skater.nationality skater,
           OpponentThreat.style = SkaterStats.style st,
           OpponentThreat.threat_score = Math_round threatScore,
           threatLevel = computeThreatLevel threatScore,
           OpponentThreat.net_passes = SkaterStats.net_passes st,
           OpponentThreat.avg_passes_per_race =
             Math_round (SkaterStats.avg_passes_per_race st * 100) / 100,
           OpponentThreat.total_races = SkaterStats.total_races st,
           medals_total = totalMedals,
           OpponentThreat.penalties = penalties_v,
           crash_count = crashCount,
           OpponentThreat.penalty_rate = penaltyRate,
           OpponentThreat.crash_rate = crashRate,
           lane = lane_arg \<rparr>)"

subsection \<open>Pace planner\<close>

definition paceBase :: "Style \<Rightarrow> Pace option" where
  "paceBase s =
     (case s of
        front_runner \<Rightarrow> Some \<lparr> early = 40, middle = 35, late = 25 \<rparr>
      | late_mover \<Rightarrow> Some \<lparr> early = 25, middle = 35, late = 40 \<rparr>
      | mid_surge \<Rightarrow> Some \<lparr> early = 30, middle = 40, late = 30 \<rparr>
      | balanced \<Rightarrow> Some \<lparr> early = 33, middle = 34, late = 33 \<rparr>
      | no_passes \<Rightarrow> Some \<lparr> early = 33, middle = 34, late = 33 \<rparr>
      | _ \<Rightarrow> None)"

text \<open>The four stages of \<^verbatim>\<open>computePace\<close>, in the order of the source.\<close>

definition distanceAdjust :: "string \<Rightarrow> Pace \<Rightarrow> Pace" where
  "distanceAdjust distance p =
     (let p1 = (if distance = ''500''
                then p\<lparr> early := early p + 5, late := late p - 5 \<rparr> else p)
      in if distance = ''1500''
         then p1\<lparr> early := early p1 - 5, late := late p1 + 5 \<rparr> else p1)"

definition laneAdjust :: "real \<Rightarrow> Pace \<Rightarrow> Pace" where
  "laneAdjust lane_v p =
     (let p1 = (if lane_v \<le> 2
                then p\<lparr> early := early p - 3, middle := middle p + 3 \<rparr> else p)
      in if lane_v \<ge> 4
         then p1\<lparr> early := early p1 + 3, late := late p1 - 3 \<rparr> else p1)"

definition avgThreat :: "OpponentThreat list \<Rightarrow> real" where
  "avgThreat opponents =
     foldl (\<lambda>s o'. s + falsy_or (OpponentThreat.threat_score o') 0) 0 opponents
       / real (length opponents)"

definition opponentAdjust :: "OpponentThreat list \<Rightarrow> Pace \<Rightarrow> Pace" where
  "opponentAdjust opponents p =
     (if length opponents > 0 then
        (if avgThreat opponents > 50
         then p\<lparr> early := early p + 2, middle := middle p + 1, late := late p - 3 \<rparr>
         else if avgThreat opponents < 25
         then p\<lparr> early := early p - 3, late := late p + 3 \<rparr>
         else p)
      else p)"

definition normalizePace :: "Pace \<Rightarrow> Pace" where
  "normalizePace p =
     (let total_v = early p + middle p + late p;
          e = Math_round ((early p / total_v) * 100);
          m = Math_round ((middle p / total_v) * 100)
      in \<lparr> early = e, middle = m, late = 100 - e - m \<rparr>)"

definition computePace :: "Style \<Rightarrow> string \<Rightarrow> real \<Rightarrow> OpponentThreat list \<Rightarrow> Pace" where
  "computePace sty distance lane_v opponents =
     normalizePace
       (opponentAdjust opponents
          (laneAdjust lane_v
             (distanceAdjust distance
                (case paceBase sty of Some p \<Rightarrow> p | None \<Rightarrow> the (paceBase balanced)))))"

subsection \<open>Lap plan builder\<close>

record LapPlanItem =
  lap :: int
  phase :: Phase
  hotspot :: bool
  action :: string
  actionClass :: ActionClass

text \<open>
  The body of the loop of \<^verbatim>\<open>buildLapPlan\<close> for one lap. The lap count is an integer
  (the only caller passes 5, 9 or 14); \<open>pct\<close> is the quotient \<^verbatim>\<open>lap / totalLaps\<close>.
  The \<^verbatim>\<open>if\<close> chain that assigns \<open>action\<close> and \<open>actionClass\<close> is \<open>lapAction\<close>.
\<close>

definition lapAction ::
  "int \<Rightarrow> bool \<Rightarrow> real \<Rightarrow> Pace \<Rightarrow> Style \<Rightarrow> int \<Rightarrow> string \<times> ActionClass" where
  "lapAction totalLaps isHotspot pct pace sty lap_v =
     (if lap_v = 1 then (''Position'', hold)
      else if lap_v = totalLaps then (''Sprint!'', push)
      else if lap_v = totalLaps - 1
        then (if sty = late_mover then ''Attack!'' else ''Push'', push)
      else if isHotspot then
        (if sty = front_runner \<and> pct \<le> 0.5 then (''Attack'', overtake)
         else if sty = late_mover \<and> pct > 0.6 then (''Attack'', overtake)
         else if sty = mid_surge \<and> pct > 0.3 \<and> pct < 0.7 then (''Surge'', overtake)
         else (''Ready'', overtake))
      else if pct \<le> 0.33
        then (if early pace \<ge> 35 then ''Push'' else ''Conserve'',
              if early pace \<ge> 35 then hold else conserve)
      else if pct \<le> 0.67 then (''Hold'', hold)
      else (if late pace \<ge> 35 then ''Push'' else ''Hold'',
            if late pace \<ge> 35 then push else hold))"

definition lapPlanItem :: "int \<Rightarrow> int set \<Rightarrow> Pace \<Rightarrow> Style \<Rightarrow> int \<Rightarrow> LapPlanItem" where
  "lapPlanItem totalLaps hotspotLapNums pace sty lap_v =
     (let pct = real_of_int lap_v / real_of_int totalLaps;
          phase_v = (if pct \<le> 0.33 then Early else if pct \<le> 0.67 then Mid else Late);
          isHotspot = (lap_v \<in> hotspotLapNums);
          act = lapAction totalLaps isHotspot pct pace sty lap_v
      in \<lparr> lap = lap_v, phase = phase_v, hotspot = isHotspot,
           action = fst act, actionClass = snd act \<rparr>)"

text \<open>The loop \<^verbatim>\<open>for (let lap = 1; lap <= totalLaps; lap++)\<close>, pushing to \<open>plan\<close>.\<close>

function lapLoop ::
  "int \<Rightarrow> int set \<Rightarrow> Pace \<Rightarrow> Style \<Rightarrow> int \<Rightarrow> LapPlanItem list \<Rightarrow> LapPlanItem list" where
  "lapLoop totalLaps hotspotLapNums pace sty lap_v plan =
     (if lap_v \<le> totalLaps
      then lapLoop totalLaps hotspotLapNums pace sty (lap_v + 1)
             (plan @ [lapPlanItem totalLaps hotspotLapNums pace sty lap_v])
      else plan)"
  by pat_completeness auto
termination
  by (relation "measure (\<lambda>(totalLaps, _, _, _, lap_v, _). nat (totalLaps + 1 - lap_v))") auto

declare lapLoop.simps [simp del]

definition buildLapPlan :: "int \<Rightarrow> int set \<Rightarrow> Pace \<Rightarrow> Style \<Rightarrow> LapPlanItem list" where
  "buildLapPlan totalLaps hotspotLapNums pace sty =
     lapLoop totalLaps hotspotLapNums pace sty 1 []"

subsection \<open>Matchup analyzer\<close>

definition STYLE_LABELS :: "Style \<Rightarrow> string option" where
  "STYLE_LABELS s =
     (case s of
        late_mover \<Rightarrow> Some ''Late Mover''
      | front_runner \<Rightarrow> Some ''Front Runner''
      | mid_surge \<Rightarrow> Some ''Mid-Race Surge''
      | balanced \<Rightarrow> Some ''Balanced''
      | no_passes \<Rightarrow> Some ''No Passes''
      | _ \<Rightarrow> None)"

record StyleMatchup =
  win_rate :: real
  total :: real

text \<open>
  The note of an insight is a template literal. The model keeps which template was
  chosen and its arguments (style labels, the rounded percentage), not the rendered
  text.
\<close>

datatype Note =
    StyleWins "string option" real "string option"
  | StyleBeats "string option" real
  | EvenMatchup real

record MatchupInsight =
  opponent :: string
  flag :: string
  advantage :: bool
  disadvantage :: bool
  winRate :: real
  myStyle :: Style
  oppStyle :: Style
  insight_note :: Note

type_synonym StyleMatchups = "Style \<Rightarrow> (Style \<Rightarrow> StyleMatchup option) option"

text \<open>The loop \<^verbatim>\<open>for (const opp of opponents.slice(0, 3))\<close>, pushing to \<open>insights\<close>.\<close>

fun insightLoop ::
  "Style \<Rightarrow> (Style \<Rightarrow> StyleMatchup option) \<Rightarrow> OpponentThreat list
     \<Rightarrow> MatchupInsight list \<Rightarrow> MatchupInsight list" where
  "insightLoop mine myMatchups [] insights = insights"
| "insightLoop mine myMatchups (opp # rest) insights =
     (let oppStyle_v = nullish (OpponentThreat.style opp) balanced;
          matchup = myMatchups oppStyle_v
      in case matchup of
           None \<Rightarrow> insightLoop mine myMatchups rest insights
         | Some mu \<Rightarrow>
             if StyleMatchup.total mu \<ge> 5 then
               (let wr = StyleMatchup.win_rate mu;
                    advantage_v = (wr > 0.55);
                    disadvantage_v = (wr < 0.45);
                    note_v =
                      (if advantage_v
                       then StyleWins (STYLE_LABELS mine) (Math_round (wr * 100))
                              (STYLE_LABELS oppStyle_v)
                       else if disadvantage_v
                       then StyleBeats (STYLE_LABELS oppStyle_v) (Math_round ((1 - wr) * 100))
                       else EvenMatchup (Math_round (wr * 100)))
                in insightLoop mine myMatchups rest
                     (insights @
                      [\<lparr> opponent = OpponentThreat.name opp,
                         MatchupInsight.flag = OpponentThreat.flag opp,
                         advantage = advantage_v,
                         disadvantage = disadvantage_v,
                         winRate = wr,
                         myStyle = mine,
                         oppStyle = oppStyle_v,
                         insight_note = note_v \<rparr>]))
             else insightLoop mine myMatchups rest insights)"

definition buildMatchupInsights ::
  "Style \<Rightarrow> OpponentThreat list \<Rightarrow> StyleMatchups \<Rightarrow> MatchupInsight list" where
  "buildMatchupInsights mine opponents styleMatchups =
     (case styleMatchups mine of
        None \<Rightarrow> []
      | Some myMatchups \<Rightarrow> insightLoop mine myMatchups (take 3 opponents) [])"

subsection \<open>Synthetic competitor builder\<close>

record CustomSkaterInput =
  name :: string
  nationality :: string
  flag :: string
  style :: Style
  pass_rate :: real
  passed_rate :: real
  threat :: real

text \<open>The white-flag glyph with its variation selector, as UTF-8 bytes.\<close>

definition default_flag :: string where
  "default_flag = [CHR 0xF0, CHR 0x9F, CHR 0x8F, CHR 0xB3, CHR 0xEF, CHR 0xB8, CHR 0x8F]"

text \<open>The \<^verbatim>\<open>switch\<close> on the style: the phase split \<open>(early, middle, late)\<close> of the passes.\<close>

definition distributePasses :: "Style \<Rightarrow> real \<Rightarrow> real \<times> real \<times> real" where
  "distributePasses sty passesMade =
     (case sty of
        front_runner \<Rightarrow>
          (let e = Math_round (passesMade * 0.5); m = Math_round (passesMade * 0.3)
           in (e, m, passesMade - e - m))
      | late_mover \<Rightarrow>
          (let l = Math_round (passesMade * 0.5); m = Math_round (passesMade * 0.3)
           in (passesMade - l - m, m, l))
      | mid_surge \<Rightarrow>
          (let m = Math_round (passesMade * 0.5); e = Math_round (passesMade * 0.25)
           in (e, m, passesMade - m - e))
      | _ \<Rightarrow>
          (let e = Math_round (passesMade * 0.33); m = Math_round (passesMade * 0.34)
           in (e, m, passesMade - e - m)))"

definition buildCustomSkater :: "CustomSkaterInput \<Rightarrow> Skater" where
  "buildCustomSkater input =
     (let totalRaces = 10;
          passesMade = Math_round (pass_rate input * totalRaces);
          timesPassed = Math_round (passed_rate input * totalRaces);
          netPasses = passesMade - timesPassed;
          (early_v, middle_v, late_v) =
            distributePasses (CustomSkaterInput.style input) passesMade
      in \<lparr> Skater.name = CustomSkaterInput.name input,
           Skater.nationality = CustomSkaterInput.nationality input,
           Skater.flag = (if CustomSkaterInput.flag input = [] then default_flag
                          else CustomSkaterInput.flag input),
           gender = ''Men'',
           category = ''senior'',
           source = ''custom'',
           stats =
             \<lparr> SkaterStats.total_races = totalRaces,
               competitions_entered = 0,
               medals = Some \<lparr> gold = 0, silver = 0, bronze = 0, Medal.total = 0 \<rparr>,
               finals_appearances = 0,
               total_passes_made = passesMade,
               total_times_passed = timesPassed,
               SkaterStats.net_passes = netPasses,
               SkaterStats.avg_passes_per_race = pass_rate input,
               passes_early = early_v,
               passes_middle = middle_v,
               passes_late = late_v,
               SkaterStats.style = Some (CustomSkaterInput.style input),
               SkaterStats.threat_score = Some (threat input),
               avg_place = None,
               podium_rate = None,
               SkaterStats.win_rate = None,
               SkaterStats.penalties = Some 0,
               dnf = 0,
               dns = 0,
               SkaterStats.penalty_rate = Some 0,
               clean_race_pct = 1.0,
               crashes_inferred = Some 0,
               SkaterStats.crash_rate = Some 0 \<rparr> \<rparr>)"

subsection \<open>Win probability model\<close>

record LaneAdvData =
  win_rate :: "real option"
  top2_rate :: "real option"

text \<open>
  The explanation is a list of template literals joined by a separator. The model
  keeps each part as its template and arguments.
\<close>

datatype ExplanationPart =
    LaneBaseOnly real
  | LaneBase real real
  | StrengthEdge real
  | StrengthGap real
  | StrengthEven
  | StyleMatchupPlus real
  | StyleMatchupMinus real

record WinProbability =
  overall :: real
  laneBase :: real
  strengthAdj :: real
  matchupAdj :: real
  podium :: real
  explanation :: "ExplanationPart list"
  hasOpponents :: bool

text \<open>
  The local constants of \<^verbatim>\<open>computeWinProbability\<close>, one definition each. On
  \<^verbatim>\<open>net_passes\<close> and \<^verbatim>\<open>avg_passes_per_race\<close>, which are always present,
  \<^verbatim>\<open>?? 0\<close> returns the field.

  The arithmetic is exact here and rounded to doubles in the program, so at a tie of
  \<^verbatim>\<open>Math.round\<close> the two can differ by one: for a single insight of win rate 0.35
  the exact product is -4.5 and rounds to -4, the double is just below -4.5 and rounds
  to -5. The properties below are ranges and the empty-field case, which hold either
  way; no exact value of \<open>matchupAdj\<close> or \<open>strengthAdj\<close> away from these is stated.
\<close>

definition laneBase_of :: "LaneAdvData option \<Rightarrow> real" where
  "laneBase_of laneAdvData =
     (case laneAdvData of
        None \<Rightarrow> 20
      | Some d \<Rightarrow> (case LaneAdvData.win_rate d of
                     None \<Rightarrow> 20
                   | Some w \<Rightarrow> Math_round (w * 100)))"

definition laneTop2_of :: "LaneAdvData option \<Rightarrow> real" where
  "laneTop2_of laneAdvData =
     (case laneAdvData of
        None \<Rightarrow> 40
      | Some d \<Rightarrow> (case top2_rate d of
                     None \<Rightarrow> 40
                   | Some t \<Rightarrow> Math_round (t * 100)))"

definition myStrength :: "Skater \<Rightarrow> real" where
  "myStrength mySkater =
     (let st = stats mySkater;
          myThreat = nullish (SkaterStats.threat_score st) 0;
          myNetPasses = SkaterStats.net_passes st;
          myAvgPasses = SkaterStats.avg_passes_per_race st;
          myMedals = (case SkaterStats.medals st of
                        None \<Rightarrow> 0
                      | Some m \<Rightarrow> falsy_or (gold m) 0 * 3 + falsy_or (silver m) 0 * 2
                                  + falsy_or (bronze m) 0);
          myRaces = falsy_or (SkaterStats.total_races st) 1
      in min 100 (max 0
           (myThreat * 0.4 +
            min 30 (max (-10) (myNetPasses / myRaces * 15)) +
            min 20 (myAvgPasses * 5) +
            min 20 (myMedals * 2))))"

definition oppStrengthSum :: "OpponentThreat list \<Rightarrow> real" where
  "oppStrengthSum opponents =
     foldl (\<lambda>sum_v o'.
              (let oppMedals = falsy_or (medals_total o') 0
               in sum_v +
                  falsy_or (OpponentThreat.threat_score o') 0 * 0.4 +
                  min 30 (max (-10)
                    ((OpponentThreat.net_passes o' / max 1 (OpponentThreat.total_races o')) * 15)) +
                  min 20 (OpponentThreat.avg_passes_per_race o' * 5) +
                  min 20 (oppMedals * 2)))
           0 opponents"

definition avgOppStrength :: "Skater \<Rightarrow> OpponentThreat list \<Rightarrow> real" where
  "avgOppStrength mySkater opponents =
     (if length opponents > 0
      then min 100 (max 0 (oppStrengthSum opponents / real (length opponents)))
      else myStrength mySkater)"

definition strengthAdj_of :: "real \<Rightarrow> real" where
  "strengthAdj_of strengthDelta =
     Math_round (50 * (2 / (1 + exp (- strengthDelta / 20)) - 1))"

definition matchupAdj_of :: "MatchupInsight list \<Rightarrow> real" where
  "matchupAdj_of matchupInsights =
     (if length matchupInsights > 0
      then (let totalAdv =
                  foldl (\<lambda>sum_v m.
                           if advantage m then sum_v + (winRate m - 0.5) * 30
                           else if disadvantage m then sum_v + (winRate m - 0.5) * 30
                           else sum_v)
                        0 matchupInsights
            in Math_round (max (-15) (min 15 (totalAdv / real (length matchupInsights)))))
      else 0)"

definition explanation_of :: "real \<Rightarrow> bool \<Rightarrow> real \<Rightarrow> real \<Rightarrow> real \<Rightarrow> ExplanationPart list" where
  "explanation_of lane_v hasOpp laneBase_v strengthAdj_v matchupAdj_v =
     (if \<not> hasOpp then [LaneBaseOnly lane_v]
      else [LaneBase lane_v laneBase_v]
           @ (if strengthAdj_v > 0 then [StrengthEdge strengthAdj_v]
              else if strengthAdj_v < 0 then [StrengthGap strengthAdj_v]
              else [StrengthEven])
           @ (if matchupAdj_v > 0 then [StyleMatchupPlus matchupAdj_v]
              else if matchupAdj_v < 0 then [StyleMatchupMinus matchupAdj_v]
              else []))"

definition computeWinProbability ::
  "Skater \<Rightarrow> real \<Rightarrow> string \<Rightarrow> OpponentThreat list \<Rightarrow> MatchupInsight list
     \<Rightarrow> LaneAdvData option \<Rightarrow> WinProbability" where
  "computeWinProbability mySkater lane_v distance opponents matchupInsights laneAdvData =
     (let laneBase_v = laneBase_of laneAdvData;
          laneTop2 = laneTop2_of laneAdvData;
          hasOpponents_v = (length opponents > 0);
          strengthDelta = myStrength mySkater - avgOppStrength mySkater opponents;
          strengthAdj_v = strengthAdj_of strengthDelta;
          matchupAdj_v = matchupAdj_of matchupInsights;
          rawWin = laneBase_v + strengthAdj_v + matchupAdj_v;
          overall_v = Math_round (max 1 (min 99 rawWin));
          rawPodium = laneTop2 + strengthAdj_v * 0.8 + matchupAdj_v * 0.5;
          podium_v = Math_round (max 2 (min 99 rawPodium))
      in \<lparr> overall = overall_v,
           laneBase = laneBase_v,
           strengthAdj = strengthAdj_v,
           matchupAdj = matchupAdj_v,
           podium = podium_v,
           explanation =
             explanation_of lane_v hasOpponents_v laneBase_v strengthAdj_v matchupAdj_v,
           hasOpponents = hasOpponents_v \<rparr>)"

subsection \<open>Auxiliary notions for the proofs\<close>

text \<open>
  A pace whose three components are whole numbers that sum to 100 and are at least
  \<open>k\<close>: the invariant of the adjustment stages.
\<close>

definition wholePace :: "real \<Rightarrow> Pace \<Rightarrow> bool" where
  "wholePace k p \<longleftrightarrow>
     early p \<in> \<int> \<and> middle p \<in> \<int> \<and> late p \<in> \<int> \<and> early p + middle p + late p = 100
     \<and> k \<le> early p \<and> k \<le> middle p \<and> k \<le> late p"

text \<open>The pace after the distance and lane stages, before the field-strength stage.\<close>

definition rawPace :: "Style \<Rightarrow> string \<Rightarrow> real \<Rightarrow> Pace" where
  "rawPace sty distance lane_v =
     laneAdjust lane_v (distanceAdjust distance
       (case paceBase sty of Some p \<Rightarrow> p | None \<Rightarrow> the (paceBase balanced)))"

text \<open>The body of the loop of \<^verbatim>\<open>buildMatchupInsights\<close> for one opponent, without the accumulator.\<close>

definition insightOf ::
  "Style \<Rightarrow> (Style \<Rightarrow> StyleMatchup option) \<Rightarrow> OpponentThreat \<Rightarrow> MatchupInsight option" where
  "insightOf mine myMatchups opp =
     (let oppStyle_v = nullish (OpponentThreat.style opp) balanced
      in case myMatchups oppStyle_v of
           None \<Rightarrow> None
         | Some mu \<Rightarrow>
             if StyleMatchup.total mu \<ge> 5 then
               (let wr = StyleMatchup.win_rate mu;
                    advantage_v = (wr > 0.55);
                    disadvantage_v = (wr < 0.45);
                    note_v =
                      (if advantage_v
                       then StyleWins (STYLE_LABELS mine) (Math_round (wr * 100))
                              (STYLE_LABELS oppStyle_v)
                       else if disadvantage_v
                       then StyleBeats (STYLE_LABELS oppStyle_v) (Math_round ((1 - wr) * 100))
                       else EvenMatchup (Math_round (wr * 100)))
                in Some
                     \<lparr> opponent = OpponentThreat.name opp,
                       MatchupInsight.flag = OpponentThreat.flag opp,
                       advantage = advantage_v,
                       disadvantage = disadvantage_v,
                       winRate = wr,
                       myStyle = mine,
                       oppStyle = oppStyle_v,
                       insight_note = note_v \<rparr>)
             else None)"

text \<open>The lap plan is indexed from 0, the laps are numbered from 1.\<close>

definition lapAt :: "LapPlanItem list \<Rightarrow> int \<Rightarrow> LapPlanItem" where
  "lapAt plan n = plan ! nat (n - 1)"

subsection \<open>The specification's wording, for comparison with the code\<close>

text \<open>
  Matchup gating as the specification words it: the table entry for the pair of styles;
  an opponent is the source of an insight when that entry exists and has at least 5
  samples, and the insight then carries the opponent's name and flag, the opponent's
  style and the entry's win rate.
\<close>

definition matchupEntry :: "StyleMatchups \<Rightarrow> Style \<Rightarrow> OpponentThreat \<Rightarrow> StyleMatchup option" where
  "matchupEntry styleMatchups mine opp =
     (case styleMatchups mine of
        None \<Rightarrow> None
      | Some row \<Rightarrow> row (nullish (OpponentThreat.style opp) balanced))"

definition insightSource ::
  "StyleMatchups \<Rightarrow> Style \<Rightarrow> OpponentThreat \<Rightarrow> (string \<times> string \<times> Style \<times> real) option" where
  "insightSource styleMatchups mine opp =
     (case matchupEntry styleMatchups mine opp of
        None \<Rightarrow> None
      | Some mu \<Rightarrow>
          if StyleMatchup.total mu < 5 then None
          else Some (OpponentThreat.name opp, OpponentThreat.flag opp,
                     nullish (OpponentThreat.style opp) balanced, StyleMatchup.win_rate mu))"

definition insightKey :: "MatchupInsight \<Rightarrow> string \<times> string \<times> Style \<times> real" where
  "insightKey i = (opponent i, MatchupInsight.flag i, oppStyle i, winRate i)"

subsection \<open>Example inputs\<close>

text \<open>
  A synthetic competitor as the setup form builds it, and the opponent record made
  from it. The presets of the form are \<open>(8, 2, 80)\<close> for elite, \<open>(5, 3, 55)\<close> for
  advanced, \<open>(3, 4, 35)\<close> for intermediate and \<open>(1, 6, 15)\<close> for beginner.
\<close>

definition custom_input ::
  "string \<Rightarrow> Style \<Rightarrow> real \<Rightarrow> real \<Rightarrow> real \<Rightarrow> CustomSkaterInput" where
  "custom_input nm sty pr pdr t =
     \<lparr> CustomSkaterInput.name = nm, CustomSkaterInput.nationality = ''USA'',
       CustomSkaterInput.flag = ''US'', CustomSkaterInput.style = sty,
       pass_rate = pr, passed_rate = pdr, threat = t \<rparr>"

definition custom_opponent ::
  "string \<Rightarrow> Style \<Rightarrow> real \<Rightarrow> real \<Rightarrow> real \<Rightarrow> OpponentThreat" where
  "custom_opponent nm sty pr pdr t =
     buildOpponentThreat (buildCustomSkater (custom_input nm sty pr pdr t)) None"

definition elite_opponent :: OpponentThreat where
  "elite_opponent = custom_opponent ''Eli'' balanced 8 2 80"

definition beginner_opponent :: OpponentThreat where
  "beginner_opponent = custom_opponent ''Ben'' balanced 1 6 15"

definition example_field :: "OpponentThreat list" where
  "example_field =
     [custom_opponent ''Ada'' front_runner 8 2 80,
      custom_opponent ''Bea'' late_mover 5 3 55,
      custom_opponent ''Cyd'' mid_surge 3 4 35,
      custom_opponent ''Dee'' front_runner 1 6 15]"

definition example_matchups :: StyleMatchups where
  "example_matchups =
     [balanced \<mapsto>
        [front_runner \<mapsto> \<lparr> StyleMatchup.win_rate = 0.6, StyleMatchup.total = 12 \<rparr>,
         late_mover \<mapsto> \<lparr> StyleMatchup.win_rate = 0.9, StyleMatchup.total = 3 \<rparr>]]"

text \<open>A roster record whose raw threat score is \<open>t\<close>.\<close>

definition roster_skater :: "real \<Rightarrow> Skater" where
  "roster_skater t =
     \<lparr> Skater.name = ''Kim'', Skater.nationality = ''KOR'', Skater.flag = ''KR'',
       gender = ''Women'', category = ''senior'', source = ''isu'',
       stats =
         \<lparr> SkaterStats.total_races = 12, competitions_entered = 3,
           medals = Some \<lparr> gold = 1, silver = 0, bronze = 2, Medal.total = 3 \<rparr>,
           finals_appearances = 4, total_passes_made = 30, total_times_passed = 18,
           SkaterStats.net_passes = 12, SkaterStats.avg_passes_per_race = 2.5,
           passes_early = 8, passes_middle = 10, passes_late = 12,
           SkaterStats.style = Some late_mover, SkaterStats.threat_score = Some t,
           avg_place = None, podium_rate = None, SkaterStats.win_rate = None,
           SkaterStats.penalties = Some 1, dnf = 0, dns = 0,
           SkaterStats.penalty_rate = Some (1 / 12), clean_race_pct = 0.9,
           crashes_inferred = Some 0, SkaterStats.crash_rate = Some 0 \<rparr> \<rparr>"

definition even_pace :: Pace where
  "even_pace = \<lparr> early = 33, middle = 34, late = 33 \<rparr>"

section \<open>Properties\<close>

subsection \<open>Rounding\<close>

lemma Math_round_of_int: "Math_round (of_int n) = of_int n"
  unfolding Math_round_def by (simp add: floor_unique)

lemma Math_round_bounds:
  assumes "of_int a \<le> x" and "x \<le> of_int b"
  shows "of_int a \<le> Math_round x \<and> Math_round x \<le> of_int b"
proof -
  have "a \<le> \<lfloor>x + 1 / 2\<rfloor>" using assms(1) by (simp add: le_floor_iff)
  moreover have "\<lfloor>x + 1 / 2\<rfloor> \<le> b" using assms(2) by (simp add: floor_le_iff)
  ultimately show ?thesis unfolding Math_round_def by simp
qed

subsection \<open>Pace planner\<close>

text \<open>
  Every base triple is whole and sums to 100, every adjustment moves whole amounts
  between components, so the total stays 100 and normalisation changes nothing.
\<close>

lemma base_whole:
  "wholePace 25 (case paceBase sty of Some p \<Rightarrow> p | None \<Rightarrow> the (paceBase balanced))"
  by (cases sty) (simp_all add: paceBase_def wholePace_def)

lemma distance_whole: "wholePace k p \<Longrightarrow> wholePace (k - 5) (distanceAdjust d p)"
  by (auto simp: wholePace_def distanceAdjust_def Let_def)

lemma lane_whole: "wholePace k p \<Longrightarrow> wholePace (k - 3) (laneAdjust l p)"
  by (auto simp: wholePace_def laneAdjust_def Let_def)

lemma opponent_whole: "wholePace k p \<Longrightarrow> wholePace (k - 3) (opponentAdjust os p)"
  by (auto simp: wholePace_def opponentAdjust_def Let_def)

lemma normalize_whole: "wholePace k p \<Longrightarrow> normalizePace p = p"
  by (auto simp: wholePace_def normalizePace_def Let_def Math_round_def elim!: Ints_cases)

lemma rawPace_whole: "wholePace 17 (rawPace sty d l)"
  using lane_whole[OF distance_whole[OF base_whole]] by (simp add: rawPace_def)

lemma computePace_raw: "computePace sty d l os = opponentAdjust os (rawPace sty d l)"
  using normalize_whole[OF opponent_whole[OF rawPace_whole]]
  by (simp add: computePace_def rawPace_def)

lemma computePace_whole: "wholePace 14 (computePace sty d l os)"
  using opponent_whole[OF rawPace_whole] by (simp add: computePace_raw)

lemma computePace_no_opponents: "computePace sty d l [] = rawPace sty d l"
  by (simp add: computePace_raw opponentAdjust_def)

text \<open>
  Claim C1. For every style, distance, lane and opponent list, the pace returned by
  \<open>computePace\<close> has components that sum to 100, each of them at least 0.
\<close>

theorem computePace_sums_to_100:
  "early (computePace sty distance lane_v opponents)
     + middle (computePace sty distance lane_v opponents)
     + late (computePace sty distance lane_v opponents) = 100
   \<and> 0 \<le> early (computePace sty distance lane_v opponents)
   \<and> 0 \<le> middle (computePace sty distance lane_v opponents)
   \<and> 0 \<le> late (computePace sty distance lane_v opponents)"
  using computePace_whole[of sty distance lane_v opponents] by (simp add: wholePace_def)

lemma custom_opponent_fields:
  "OpponentThreat.name (custom_opponent nm sty pr pdr t) = nm"
  "OpponentThreat.flag (custom_opponent nm sty pr pdr t) = ''US''"
  "OpponentThreat.style (custom_opponent nm sty pr pdr t) = Some sty"
  "OpponentThreat.threat_score (custom_opponent nm sty pr pdr t)
     = Math_round (if t = 0 then 0 else t)"
  by (simp_all add: custom_opponent_def buildOpponentThreat_def buildCustomSkater_def
      custom_input_def Let_def or_else_def split: prod.split)

lemma elite_threat: "OpponentThreat.threat_score elite_opponent = 80"
  by (simp add: elite_opponent_def custom_opponent_fields Math_round_def)

lemma beginner_threat: "OpponentThreat.threat_score beginner_opponent = 15"
  by (simp add: beginner_opponent_def custom_opponent_fields Math_round_def)

lemma rawPace_balanced: "rawPace balanced ''1000'' 3 = \<lparr> early = 33, middle = 34, late = 33 \<rparr>"
  by (simp add: rawPace_def paceBase_def laneAdjust_def distanceAdjust_def)

text \<open>
  Claim C2 says that a strong field (average threat above 50) shifts weight toward
  the late component and a weak field (average below 25) toward the early one. The
  code does the opposite: against one elite opponent the late share of a balanced
  skater falls from 33 to 30, against one beginner the early share falls from 33 to 30.
\<close>

theorem computePace_field_direction_counterexample:
  "avgThreat [elite_opponent] > 50
   \<and> late (computePace balanced ''1000'' 3 [elite_opponent]) = 30
   \<and> late (computePace balanced ''1000'' 3 []) = 33
   \<and> avgThreat [beginner_opponent] < 25
   \<and> early (computePace balanced ''1000'' 3 [beginner_opponent]) = 30
   \<and> early (computePace balanced ''1000'' 3 []) = 33"
  by (simp add: computePace_raw rawPace_balanced opponentAdjust_def avgThreat_def
      elite_threat beginner_threat falsy_or_def)

text \<open>
  Claim C2, amended. For a non-empty opponent list the pace is the pace without
  opponents, changed as follows: when the average threat score exceeds 50, early gains
  2, middle gains 1 and late loses 3 (weight moves earlier); when it is below 25, early
  loses 3 and late gains 3 (weight moves later); otherwise nothing changes.
\<close>

theorem computePace_field_adjustment:
  assumes "opponents \<noteq> []"
  shows "computePace sty distance lane_v opponents =
     (let p = computePace sty distance lane_v [] in
      if avgThreat opponents > 50
      then p\<lparr> early := early p + 2, middle := middle p + 1, late := late p - 3 \<rparr>
      else if avgThreat opponents < 25
      then p\<lparr> early := early p - 3, late := late p + 3 \<rparr>
      else p)"
  using assms by (simp add: computePace_no_opponents computePace_raw opponentAdjust_def Let_def)

theorem computePace_field_adjustment_witness:
  "[elite_opponent] \<noteq> [] \<and> [beginner_opponent] \<noteq> []
   \<and> computePace front_runner ''500'' 1 [elite_opponent]
       = \<lparr> early = 44, middle = 39, late = 17 \<rparr>
   \<and> computePace front_runner ''500'' 1 [] = \<lparr> early = 42, middle = 38, late = 20 \<rparr>
   \<and> computePace front_runner ''500'' 1 [beginner_opponent]
       = \<lparr> early = 39, middle = 38, late = 23 \<rparr>"
  using computePace_field_adjustment[of "[elite_opponent]" front_runner "''500''" 1]
    computePace_field_adjustment[of "[beginner_opponent]" front_runner "''500''" 1]
  by (simp add: computePace_no_opponents rawPace_def paceBase_def laneAdjust_def
      distanceAdjust_def avgThreat_def elite_threat beginner_threat falsy_or_def)

subsection \<open>Win probability model\<close>

lemma logistic_bounds:
  "- 50 \<le> 50 * (2 / (1 + exp (x::real)) - 1) \<and> 50 * (2 / (1 + exp x) - 1) \<le> 50"
proof -
  have e: "0 < exp x" by simp
  have "0 < 2 / (1 + exp x)" using e by (simp add: add_pos_pos)
  moreover have "2 / (1 + exp x) < 2" using e by (simp add: divide_less_eq add_pos_pos)
  ultimately show ?thesis by simp
qed

lemma strengthAdj_of_bounds: "- 50 \<le> strengthAdj_of dl \<and> strengthAdj_of dl \<le> 50"
  using Math_round_bounds[of "-50" _ 50] logistic_bounds[of "- dl / 20"]
  unfolding strengthAdj_of_def by simp

lemma matchupAdj_of_bounds: "- 15 \<le> matchupAdj_of ins \<and> matchupAdj_of ins \<le> 15"
proof (cases "length ins > 0")
  case True
  then show ?thesis
    using Math_round_bounds[of "-15" _ 15] unfolding matchupAdj_of_def Let_def by simp
next
  case False
  then show ?thesis by (simp add: matchupAdj_of_def)
qed

text \<open>
  Claim C3. For every competitor, lane, distance, opponent list, insight list and
  lane-advantage record (absent or present), the result of \<open>computeWinProbability\<close>
  has \<open>overall\<close> between 1 and 99, \<open>podium\<close> between 2 and 99, \<open>strengthAdj\<close> between
  -50 and 50 and \<open>matchupAdj\<close> between -15 and 15.
\<close>

theorem computeWinProbability_bounds:
  "1 \<le> overall (computeWinProbability mySkater lane_v distance opponents insights laneAdvData)
   \<and> overall (computeWinProbability mySkater lane_v distance opponents insights laneAdvData) \<le> 99
   \<and> 2 \<le> podium (computeWinProbability mySkater lane_v distance opponents insights laneAdvData)
   \<and> podium (computeWinProbability mySkater lane_v distance opponents insights laneAdvData) \<le> 99
   \<and> - 50 \<le> strengthAdj (computeWinProbability mySkater lane_v distance opponents insights laneAdvData)
   \<and> strengthAdj (computeWinProbability mySkater lane_v distance opponents insights laneAdvData) \<le> 50
   \<and> - 15 \<le> matchupAdj (computeWinProbability mySkater lane_v distance opponents insights laneAdvData)
   \<and> matchupAdj (computeWinProbability mySkater lane_v distance opponents insights laneAdvData) \<le> 15"
  using Math_round_bounds[of 1 _ 99] Math_round_bounds[of 2 _ 99]
    strengthAdj_of_bounds matchupAdj_of_bounds
  unfolding computeWinProbability_def Let_def by simp

text \<open>
  Claim C4. With an empty opponent list the result has \<open>hasOpponents = False\<close>, the
  average opponent strength is the competitor's own composite strength, and so
  \<open>strengthAdj\<close> is 0.
\<close>

theorem computeWinProbability_no_opponents:
  "hasOpponents (computeWinProbability mySkater lane_v distance [] insights laneAdvData) = False
   \<and> avgOppStrength mySkater [] = myStrength mySkater
   \<and> strengthAdj (computeWinProbability mySkater lane_v distance [] insights laneAdvData) = 0"
  by (simp add: computeWinProbability_def Let_def avgOppStrength_def strengthAdj_of_def
      Math_round_def)

subsection \<open>Matchup analyzer\<close>

text \<open>The loop appends, in order, the insights of the opponents that have one.\<close>

lemma insightLoop_map_filter:
  "insightLoop mine mm os acc = acc @ List.map_filter (insightOf mine mm) os"
  by (induction os arbitrary: acc)
     (simp_all add: insightOf_def Let_def split: option.split)

lemma buildMatchupInsights_map_filter:
  "buildMatchupInsights mine os tbl =
     (case tbl mine of None \<Rightarrow> []
      | Some mm \<Rightarrow> List.map_filter (insightOf mine mm) (take 3 os))"
  by (simp add: buildMatchupInsights_def insightLoop_map_filter split: option.split)

lemma length_map_filter_le: "length (List.map_filter f xs) \<le> length xs"
  by (induction xs) (simp_all split: option.split)

lemma map_map_filter: "map g (List.map_filter f xs) = List.map_filter (map_option g \<circ> f) xs"
  by (induction xs) (simp_all split: option.split)

lemma set_map_filter: "x \<in> set (List.map_filter f xs) \<Longrightarrow> \<exists>y \<in> set xs. f y = Some x"
  by (auto simp: List.map_filter_def)

lemma insightOf_key:
  "tbl mine = Some mm \<Longrightarrow>
     map_option insightKey (insightOf mine mm opp) = insightSource tbl mine opp"
  by (simp add: insightOf_def insightSource_def matchupEntry_def insightKey_def Let_def
      split: option.split)

lemma insightSource_no_row: "tbl mine = None \<Longrightarrow> insightSource tbl mine opp = None"
  by (simp add: insightSource_def matchupEntry_def)

lemma insightOf_flags:
  "insightOf mine mm opp = Some i \<Longrightarrow>
     (advantage i \<longleftrightarrow> winRate i > 0.55) \<and> (disadvantage i \<longleftrightarrow> winRate i < 0.45)"
  by (auto simp: insightOf_def Let_def split: option.splits if_splits)

lemma keys_map_filter:
  assumes "tbl mine = Some mm"
  shows "map insightKey (List.map_filter (insightOf mine mm) os)
      = List.map_filter (insightSource tbl mine) os"
proof -
  have key: "map_option insightKey (insightOf mine mm opp) = insightSource tbl mine opp"
    for opp using assms by (rule insightOf_key)
  have "map_option insightKey \<circ> insightOf mine mm = insightSource tbl mine"
    by (rule ext) (simp add: key)
  then show ?thesis by (simp only: map_map_filter)
qed

lemma flags_map_filter:
  assumes "i \<in> set (List.map_filter (insightOf mine mm) os)"
  shows "(advantage i \<longleftrightarrow> winRate i > 0.55) \<and> (disadvantage i \<longleftrightarrow> winRate i < 0.45)"
proof -
  obtain y where "insightOf mine mm y = Some i"
    using set_map_filter[OF assms] by blast
  then show ?thesis by (rule insightOf_flags)
qed

text \<open>
  Claim C6. For every competitor style, opponent list and style-matchup table, the
  analyzer returns at most 3 insights; they are, in order, exactly those of the
  opponents among the first 3 of the list whose style pair has a table entry with at
  least 5 samples (an opponent with no entry, or with an entry of fewer than 5 samples
  whatever its win rate, yields none); and in each insight advantage holds exactly when
  the win rate exceeds 0.55 and disadvantage exactly when it is below 0.45.
\<close>

theorem buildMatchupInsights_top3_gated:
  "length (buildMatchupInsights mine opponents styleMatchups) \<le> 3
   \<and> map insightKey (buildMatchupInsights mine opponents styleMatchups)
       = List.map_filter (insightSource styleMatchups mine) (take 3 opponents)
   \<and> (\<forall>i \<in> set (buildMatchupInsights mine opponents styleMatchups).
         (advantage i \<longleftrightarrow> winRate i > 0.55) \<and> (disadvantage i \<longleftrightarrow> winRate i < 0.45))"
proof (cases "styleMatchups mine")
  case None
  then have "buildMatchupInsights mine opponents styleMatchups = []"
    by (simp add: buildMatchupInsights_map_filter)
  moreover have "List.map_filter (insightSource styleMatchups mine) (take 3 opponents) = []"
    using None by (simp add: List.map_filter_def insightSource_no_row)
  ultimately show ?thesis by simp
next
  case (Some mm)
  then have eq: "buildMatchupInsights mine opponents styleMatchups
      = List.map_filter (insightOf mine mm) (take 3 opponents)"
    by (simp add: buildMatchupInsights_map_filter)
  have "length (List.map_filter (insightOf mine mm) (take 3 opponents))
      \<le> length (take 3 opponents)"
    by (rule length_map_filter_le)
  then have len: "length (buildMatchupInsights mine opponents styleMatchups) \<le> 3"
    unfolding eq by simp
  have keys: "map insightKey (buildMatchupInsights mine opponents styleMatchups)
      = List.map_filter (insightSource styleMatchups mine) (take 3 opponents)"
    unfolding eq using Some by (rule keys_map_filter)
  have flags: "\<forall>i \<in> set (buildMatchupInsights mine opponents styleMatchups).
         (advantage i \<longleftrightarrow> winRate i > 0.55) \<and> (disadvantage i \<longleftrightarrow> winRate i < 0.45)"
    unfolding eq using flags_map_filter by blast
  from len keys flags show ?thesis by blast
qed

text \<open>
  In the example field the elite front runner yields the one insight: the late mover's
  entry has 3 samples, the mid-surge style has no entry, and the second front runner
  is fourth in the list.
\<close>

theorem buildMatchupInsights_top3_gated_witness:
  "map insightKey (buildMatchupInsights balanced example_field example_matchups)
     = [(''Ada'', ''US'', front_runner, 0.6)]
   \<and> map advantage (buildMatchupInsights balanced example_field example_matchups) = [True]
   \<and> map disadvantage (buildMatchupInsights balanced example_field example_matchups) = [False]
   \<and> length (buildMatchupInsights balanced example_field example_matchups) \<le> 3"
  using buildMatchupInsights_top3_gated[of balanced example_field example_matchups]
  by (simp add: buildMatchupInsights_map_filter example_field_def example_matchups_def
      insightOf_def insightSource_def matchupEntry_def custom_opponent_fields nullish_def
      Let_def)

subsection \<open>Lap plan builder\<close>

lemma lapLoop_upto:
  "lapLoop n hs p s k acc = acc @ map (lapPlanItem n hs p s) [k..n]"
proof (induction n hs p s k acc rule: lapLoop.induct)
  case (1 n hs p s k acc)
  show ?case
  proof (cases "k \<le> n")
    case True
    then have "[k..n] = k # [k + 1..n]" by (simp add: upto_rec1)
    with True 1 show ?thesis by (subst lapLoop.simps) simp
  next
    case False
    then show ?thesis by (subst lapLoop.simps) simp
  qed
qed

lemma buildLapPlan_upto: "buildLapPlan n hs p s = map (lapPlanItem n hs p s) [1..n]"
  by (simp add: buildLapPlan_def lapLoop_upto)

lemma length_buildLapPlan: "length (buildLapPlan n hs p s) = nat n"
  by (simp add: buildLapPlan_upto)

lemma lapAt_buildLapPlan:
  "1 \<le> k \<Longrightarrow> k \<le> n \<Longrightarrow> lapAt (buildLapPlan n hs p s) k = lapPlanItem n hs p s k"
  by (simp add: lapAt_def buildLapPlan_upto)

lemma lapAction_first: "lapAction n h pct p s 1 = (''Position'', hold)"
  by (simp add: lapAction_def)

lemma lapAction_final: "2 \<le> n \<Longrightarrow> lapAction n h pct p s n = (''Sprint!'', push)"
  by (simp add: lapAction_def)

lemma lapAction_penultimate:
  "3 \<le> n \<Longrightarrow> lapAction n h pct p s (n - 1)
     = (if s = late_mover then ''Attack!'' else ''Push'', push)"
  by (simp add: lapAction_def)

lemma lapPlanItem_fields:
  "lap (lapPlanItem n hs p s k) = k"
  "action (lapPlanItem n hs p s k)
     = fst (lapAction n (k \<in> hs) (real_of_int k / real_of_int n) p s k)"
  "actionClass (lapPlanItem n hs p s k)
     = snd (lapAction n (k \<in> hs) (real_of_int k / real_of_int n) p s k)"
  by (simp_all add: lapPlanItem_def Let_def)

text \<open>
  Claim C7 names the labels \<open>Sprint\<close> and \<open>Attack\<close> and speaks of every lap count.
  The code writes \<open>Sprint!\<close> on the final lap and \<open>Attack!\<close> on the second-to-last lap
  of a late mover (\<open>Attack\<close> without the mark is the label of a hotspot lap), and the
  test for lap 1 comes first: a plan of one lap has no sprint, and in a plan of two
  laps the second-to-last lap is lap 1, \<open>Position\<close>.
\<close>

theorem buildLapPlan_labels_counterexample:
  "action (lapAt (buildLapPlan 5 {} even_pace late_mover) 5) \<noteq> ''Sprint''
   \<and> action (lapAt (buildLapPlan 5 {} even_pace late_mover) 4) \<noteq> ''Attack''
   \<and> action (lapAt (buildLapPlan 1 {} even_pace late_mover) 1) \<noteq> ''Sprint!''
   \<and> action (lapAt (buildLapPlan 2 {} even_pace late_mover) 1) = ''Position''"
  by (simp add: lapAt_buildLapPlan lapPlanItem_fields lapAction_def)

text \<open>
  Claim C7, amended. For every lap count, hotspot set, pace and style the plan has
  one item per lap; with at least 1 lap, lap 1 has action \<open>Position\<close> and class hold;
  with at least 2 laps, the final lap has action \<open>Sprint!\<close> and class push; with at
  least 3 laps, the second-to-last lap has action \<open>Attack!\<close> for a late mover and
  \<open>Push\<close> otherwise, with class push; none of this depends on the hotspot set.
\<close>

theorem buildLapPlan_fixed_laps:
  "length (buildLapPlan totalLaps hotspotLapNums pace sty) = nat totalLaps
   \<and> (1 \<le> totalLaps \<longrightarrow>
        lap (lapAt (buildLapPlan totalLaps hotspotLapNums pace sty) 1) = 1
        \<and> action (lapAt (buildLapPlan totalLaps hotspotLapNums pace sty) 1) = ''Position''
        \<and> actionClass (lapAt (buildLapPlan totalLaps hotspotLapNums pace sty) 1) = hold)
   \<and> (2 \<le> totalLaps \<longrightarrow>
        lap (lapAt (buildLapPlan totalLaps hotspotLapNums pace sty) totalLaps) = totalLaps
        \<and> action (lapAt (buildLapPlan totalLaps hotspotLapNums pace sty) totalLaps) = ''Sprint!''
        \<and> actionClass (lapAt (buildLapPlan totalLaps hotspotLapNums pace sty) totalLaps) = push)
   \<and> (3 \<le> totalLaps \<longrightarrow>
        lap (lapAt (buildLapPlan totalLaps hotspotLapNums pace sty) (totalLaps - 1))
          = totalLaps - 1
        \<and> action (lapAt (buildLapPlan totalLaps hotspotLapNums pace sty) (totalLaps - 1))
            = (if sty = late_mover then ''Attack!'' else ''Push'')
        \<and> actionClass (lapAt (buildLapPlan totalLaps hotspotLapNums pace sty) (totalLaps - 1))
            = push)"
  by (simp add: length_buildLapPlan lapAt_buildLapPlan lapPlanItem_fields
      lapAction_first lapAction_final lapAction_penultimate)

theorem buildLapPlan_fixed_laps_witness:
  "(1::int) \<le> 5 \<and> (2::int) \<le> 5 \<and> (3::int) \<le> 5
   \<and> map action (buildLapPlan 5 {2, 4} even_pace late_mover)
       = [''Position'', ''Ready'', ''Hold'', ''Attack!'', ''Sprint!'']
   \<and> action (lapAt (buildLapPlan 5 {2, 4} even_pace late_mover) 1) = ''Position''
   \<and> action (lapAt (buildLapPlan 5 {2, 4} even_pace late_mover) 5) = ''Sprint!''
   \<and> action (lapAt (buildLapPlan 5 {2, 4} even_pace late_mover) 4) = ''Attack!''"
  using buildLapPlan_fixed_laps[of 5 "{2, 4}" even_pace late_mover]
  by (simp add: buildLapPlan_upto upto_rec1 lapPlanItem_fields lapAction_def even_pace_def)

subsection \<open>Synthetic competitor builder\<close>

text \<open>
  Claim C8 says that a majority of the 80 passes goes to \<open>passes_late\<close>. The late
  mover's split gives the late phase one half: 40 of 80, which is not more than half.
\<close>

theorem buildCustomSkater_majority_counterexample:
  "total_passes_made (stats (buildCustomSkater (custom_input ''Ada'' late_mover 8 2 80))) = 80
   \<and> passes_late (stats (buildCustomSkater (custom_input ''Ada'' late_mover 8 2 80))) = 40
   \<and> \<not> (2 * passes_late (stats (buildCustomSkater (custom_input ''Ada'' late_mover 8 2 80)))
          > total_passes_made (stats (buildCustomSkater (custom_input ''Ada'' late_mover 8 2 80))))"
  by (simp add: custom_input_def buildCustomSkater_def distributePasses_def Let_def
      Math_round_def)

text \<open>
  Claim C8, amended. For an input with pass rate 8, passed rate 2 and style late
  mover, the profile has net passes 60, average passes per race 8 and 80 passes made,
  of which exactly half, 40, are late, 24 middle and 16 early: the late phase has
  the largest share.
\<close>

theorem buildCustomSkater_late_mover_scenario:
  assumes "pass_rate input = 8" and "passed_rate input = 2"
    and "CustomSkaterInput.style input = late_mover"
  shows "SkaterStats.net_passes (stats (buildCustomSkater input)) = 60
   \<and> SkaterStats.avg_passes_per_race (stats (buildCustomSkater input)) = 8
   \<and> total_passes_made (stats (buildCustomSkater input)) = 80
   \<and> passes_late (stats (buildCustomSkater input)) = 40
   \<and> passes_middle (stats (buildCustomSkater input)) = 24
   \<and> passes_early (stats (buildCustomSkater input)) = 16"
  using assms
  by (simp add: buildCustomSkater_def distributePasses_def Let_def Math_round_def)

theorem buildCustomSkater_late_mover_scenario_witness:
  "pass_rate (custom_input ''Ada'' late_mover 8 2 80) = 8
   \<and> passed_rate (custom_input ''Ada'' late_mover 8 2 80) = 2
   \<and> CustomSkaterInput.style (custom_input ''Ada'' late_mover 8 2 80) = late_mover
   \<and> passes_late (stats (buildCustomSkater (custom_input ''Ada'' late_mover 8 2 80))) = 40
   \<and> SkaterStats.net_passes (stats (buildCustomSkater (custom_input ''Ada'' late_mover 8 2 80)))
       = 60"
  using buildCustomSkater_late_mover_scenario[of "custom_input ''Ada'' late_mover 8 2 80"]
  by (simp add: custom_input_def)

subsection \<open>Threat evaluator\<close>

lemma computeThreatLevel_boundaries:
  "computeThreatLevel 59 = medium" "computeThreatLevel 60 = high"
  "computeThreatLevel 29 = low" "computeThreatLevel 30 = medium"
  by (simp_all add: computeThreatLevel_def)

text \<open>
  Claim C9. The level carried by the record should be the fixed-threshold
  classification of the record's own \<open>threat_score\<close>, as the setup form computes it from
  the record (\<^verbatim>\<open>computeThreatLevel(opp.threat_score)\<close>). The code stores the rounded score
  but classifies the unrounded one, so the two disagree just below a threshold: a raw
  score of 59.5 is stored as 60, which classifies as high, with level medium; a raw
  score of 29.5 is stored as 30, which classifies as medium, with level low.
\<close>

theorem buildOpponentThreat_level_mismatch:
  "OpponentThreat.threat_score (buildOpponentThreat (roster_skater 59.5) None) = 60
   \<and> threatLevel (buildOpponentThreat (roster_skater 59.5) None) = medium
   \<and> computeThreatLevel
       (OpponentThreat.threat_score (buildOpponentThreat (roster_skater 59.5) None)) = high
   \<and> OpponentThreat.threat_score (buildOpponentThreat (roster_skater 29.5) None) = 30
   \<and> threatLevel (buildOpponentThreat (roster_skater 29.5) None) = low
   \<and> computeThreatLevel
       (OpponentThreat.threat_score (buildOpponentThreat (roster_skater 29.5) None)) = medium"
  by (simp add: roster_skater_def buildOpponentThreat_def Let_def or_else_def Math_round_def
      computeThreatLevel_def)

end
